theory Spec2Isabelle
  imports Main
begin

section \<open>JavaScript values\<close>

text \<open>
  The driver handles untyped JSON-like records. A value is \<open>undefined\<close>, \<open>null\<close>, a
  boolean, a number, a string, an array or a plain object. An object is an association
  list in insertion order; a property read takes the first entry of a name. Numbers are modelled as integers (offsets, limits and counts
  are the only numbers the driver computes with). Property reads are reads of own
  properties: the prototype chain is not modelled.
\<close>

datatype jsval =
    JUndefined
  | JNull
  | JBool bool
  | JNum int
  | JStr string
  | JArr "jsval list"
  | JObj "(string \<times> jsval) list"

type_synonym fields = "(string \<times> jsval) list"

text \<open>\<open>if (v)\<close>: every value is truthy except \<open>undefined\<close>, \<open>null\<close>, \<open>false\<close>, \<open>0\<close>
  and the empty string.\<close>

fun truthy :: "jsval \<Rightarrow> bool" where
  "truthy JUndefined = False"
| "truthy JNull = False"
| "truthy (JBool b) = b"
| "truthy (JNum n) = (n \<noteq> 0)"
| "truthy (JStr s) = (s \<noteq> [])"
| "truthy (JArr xs) = True"
| "truthy (JObj kvs) = True"

text \<open>The property names of an object in insertion order, and \<open>key in o\<close>.
  \<open>Object.keys(o)\<close> enumerates these names, array indices first; only \<open>del\<close> depends on
  which name is first (\<open>first_key\<close> below).\<close>

definition keys :: "fields \<Rightarrow> string list" where
  "keys obj = map fst obj"

definition has :: "fields \<Rightarrow> string \<Rightarrow> bool" where
  "has obj k = (k \<in> set (keys obj))"

text \<open>\<open>o[k]\<close>: the value of the property, \<open>undefined\<close> when the object has none.\<close>

definition lookup :: "fields \<Rightarrow> string \<Rightarrow> jsval" where
  "lookup obj k = (case map_of obj k of Some v \<Rightarrow> v | None \<Rightarrow> JUndefined)"

text \<open>\<open>o[k] = v\<close>: overwrites the property in place, or appends it.\<close>

fun assign :: "string \<Rightarrow> jsval \<Rightarrow> fields \<Rightarrow> fields" where
  "assign k v [] = [(k, v)]"
| "assign k v ((k', v') # rest) =
     (if k' = k then (k, v) # rest else (k', v') # assign k v rest)"

text \<open>
  Modelled from the spec: the structural equality by which the diff engine compares two
  values (section 4.2: it recurses into nested objects and arrays field by field and is
  not identity-based); the engine itself is not among the source files. Two objects are
  equal when they have the same property names and the values under each name are equal;
  two arrays when they have the same length and equal items; anything else when it is
  the same primitive value.
\<close>

function (sequential) deep_equal :: "jsval \<Rightarrow> jsval \<Rightarrow> bool" where
  "deep_equal (JObj a) (JObj b) =
     (list_all (\<lambda>k. k \<in> set (map fst b) \<and> deep_equal (lookup a k) (lookup b k)) (map fst a)
      \<and> list_all (\<lambda>k. k \<in> set (map fst a)) (map fst b))"
| "deep_equal (JArr xs) (JArr ys) =
     (length xs = length ys \<and> list_all (\<lambda>(x, y). deep_equal x y) (zip xs ys))"
| "deep_equal x y = (x = y)"
  by pat_completeness auto
termination
proof (relation "measure (\<lambda>(x, y). size x)")
  show "wf (measure (\<lambda>(x, y). size x))" by simp
next
  fix a b :: fields and k :: string
  assume "k \<in> set (map fst a)"
  then have "size (lookup a k) < Suc (size_list (size_prod (\<lambda>_. 0) size) a)"
  proof (induction a)
    case Nil
    then show ?case by simp
  next
    case (Cons e a)
    show ?case
    proof (cases "fst e = k")
      case True
      then show ?thesis by (cases e) (simp add: lookup_def)
    next
      case False
      with Cons.prems have "k \<in> set (map fst a)" by auto
      from Cons.IH [OF this] False show ?thesis
        by (cases e) (simp add: lookup_def)
    qed
  qed
  then show "((lookup a k, lookup b k), (JObj a, JObj b)) \<in> measure (\<lambda>(x, y). size x)"
    by simp
next
  fix xs ys :: "jsval list" and z :: "jsval \<times> jsval" and x y :: jsval
  assume "z \<in> set (zip xs ys)" and "(x, y) = z"
  then have "x \<in> set xs" by (auto dest: set_zip_leftD)
  then have "size x \<le> size_list size xs" by (rule size_list_estimation') simp
  then show "((x, y), (JArr xs, JArr ys)) \<in> measure (\<lambda>(x, y). size x)"
    by simp
qed

section \<open>The diff engine\<close>

text \<open>
  Modelled from the spec: the diff engine (\<open>lib/util/objectdiff\<close>, required by the
  driver as \<open>objectDiff\<close>) is not among the source files. Section 4.2 of the
  specification gives its contract: for the union of the field names of the two records,
  a field present in both is unchanged when the values are structurally equal and changed
  otherwise, a field present only in the current record is added, a field present only
  in the original is removed and reported as becoming undefined; the change set is empty
  when every field is unchanged. The driver reads the emptiness as
  \<open>changes.changed === 'equal'\<close>, the per-field entries as \<open>changes.value\<close> and a field's
  classification as \<open>changes.value[key].changed\<close>, where \<open>'equal'\<close> is \<open>Unchanged\<close>.
\<close>

datatype status = Unchanged | Changed | Added | Removed

record field_change =
  previous :: jsval
  new_value :: jsval
  status :: status

record change_set =
  is_empty :: bool
  "value" :: "(string \<times> field_change) list"

text \<open>Modelled from the spec: the classification of one field name (section 4.2), the
  diff engine being absent from the source files.\<close>

definition classify :: "fields \<Rightarrow> fields \<Rightarrow> string \<Rightarrow> status" where
  "classify original current k =
     (if has original k \<and> has current k
      then (if deep_equal (lookup original k) (lookup current k) then Unchanged else Changed)
      else if has current k then Added
      else Removed)"

text \<open>Modelled from the spec: the union of the field names of the two records, those
  of the original first.\<close>

definition field_names :: "fields \<Rightarrow> fields \<Rightarrow> string list" where
  "field_names original current =
     keys original @ filter (\<lambda>k. \<not> has original k) (keys current)"

text \<open>Modelled from the spec: \<open>diff(original, current)\<close> of section 4.2, the change set
  with one entry per field name and its emptiness.\<close>

definition diff :: "fields \<Rightarrow> fields \<Rightarrow> change_set" where
  "diff original current =
     (let entries =
        map (\<lambda>k. (k, \<lparr>previous = lookup original k, new_value = lookup current k,
                        status = classify original current k\<rparr>))
            (field_names original current)
      in \<lparr>is_empty = list_all (\<lambda>(k, c). status c = Unchanged) entries, value = entries\<rparr>)"

text \<open>The fields on which two records differ: those the diff does not classify as
  unchanged.\<close>

definition differing :: "fields \<Rightarrow> fields \<Rightarrow> string set" where
  "differing original current =
     {k \<in> set (field_names original current). classify original current k \<noteq> Unchanged}"

section \<open>Schemas, models and documents\<close>

text \<open>
  What the driver reads of its arguments: \<open>model.bucket\<close>, \<open>model.schema.primaryKey\<close>
  (a field name, or nothing when the schema declares no primary key), and of a document
  its \<open>model\<close>, its \<open>schema\<close>, its \<open>primaryKey\<close> and its \<open>__originalData__\<close>. The schema
  and model records keep the source's field names; the document's fields carry the
  prefix \<open>doc_\<close> where the name is already taken.
\<close>

record osmos_schema =
  primaryKey :: "string option"

record osmos_model =
  bucket :: string
  schema :: osmos_schema

record osmos_document =
  doc_model :: osmos_model
  doc_schema :: osmos_schema
  doc_primaryKey :: jsval
  originalData :: fields

text \<open>\<open>!schema.primaryKey\<close> holds for an undeclared key and for the empty name.\<close>

definition declared :: "string option \<Rightarrow> bool" where
  "declared pk = (case pk of None \<Rightarrow> False | Some name \<Rightarrow> name \<noteq> [])"

text \<open>A primary-key name used as a property name: \<open>o[undefined]\<close> is \<open>o['undefined']\<close>.\<close>

definition prop_name :: "string option \<Rightarrow> string" where
  "prop_name pk = (case pk of None \<Rightarrow> ''undefined'' | Some name \<Rightarrow> name)"

section \<open>The search store's client\<close>

text \<open>
  The client of the backing store is an external collaborator; the driver holds it as
  \<open>this.client\<close> and calls its \<open>get\<close>, \<open>index\<close>, \<open>update\<close>, \<open>delete\<close> and \<open>search\<close>, each
  with a request object and a completion function. A request is a record of the
  properties the driver writes; a response is what the client passes to the completion
  function: an error value and, where the driver reads it, a result (absent when the
  client passes none).
\<close>

record get_params =
  get_index :: string
  get_type :: string
  get_id :: jsval

record index_payload =
  idx_index :: string
  idx_type :: string
  idx_body :: fields
  idx_published :: bool
  idx_refresh :: bool
  idx_consistency :: string
  idx_id :: "jsval option"

record update_payload =
  upd_index :: string
  upd_type :: string
  upd_consistency :: string
  upd_refresh :: bool
  upd_doc :: fields
  upd_id :: jsval

record delete_params =
  del_index :: string
  del_type :: string
  del_id :: jsval
  del_refresh :: bool

record search_query =
  q_index :: string
  q_type :: string
  q_body :: fields

datatype store_call =
    Get get_params
  | Index index_payload
  | Update update_payload
  | Delete delete_params
  | Search search_query

text \<open>A hit is \<open>{_id, _source}\<close>; a search result is \<open>{hits: {hits, total}}\<close>.\<close>

record hit =
  hit_id :: jsval
  hit_source :: fields

record search_result =
  hits :: "hit list"
  total :: jsval

text \<open>Of the result of \<open>index\<close> the driver reads \<open>_id\<close> only.\<close>

record index_result =
  result_id :: jsval

record es_client =
  es_get :: "get_params \<Rightarrow> jsval \<times> hit option"
  es_index :: "index_payload \<Rightarrow> jsval \<times> index_result option"
  es_update :: "update_payload \<Rightarrow> jsval list"
  es_delete :: "delete_params \<Rightarrow> jsval \<times> jsval"
  es_search :: "search_query \<Rightarrow> jsval \<times> search_result option"

record driver =
  client :: es_client
  index :: string

section \<open>The driver\<close>

text \<open>
  What a call of a driver operation does: the requests it sends to the store, the
  arguments with which the completion callback is invoked (\<open>None\<close> when it never is),
  and the exception that escapes (\<open>None\<close> when none does).
\<close>

datatype error = OsmosError string | TypeError string

record outcome =
  calls :: "store_call list"
  callback :: "jsval list option"
  thrown :: "error option"

text \<open>\<open>process.nextTick(f)\<close>: the call returns at once and \<open>f\<close> runs in a later tick of
  the event loop; the value is what running \<open>f\<close> does.\<close>

datatype 'a deferred = NextTick 'a

fun later :: "'a deferred \<Rightarrow> 'a" where
  "later (NextTick x) = x"

text \<open>
  \<open>merge\<close> is the \<open>deepmerge\<close> library, an external collaborator: the result holds the
  properties of the target, replaced or extended by those of the source. At the
  driver's three call sites the target holds numbers only, so no pair of nested objects
  is ever merged.
\<close>

definition merge :: "fields \<Rightarrow> fields \<Rightarrow> fields" where
  "merge target src = foldl (\<lambda>dst (k, v). assign k v dst) target src"

text \<open>\<open>record._source[model.schema.primaryKey] = record._id; return record._source\<close>\<close>

definition inject :: "osmos_model \<Rightarrow> hit \<Rightarrow> jsval" where
  "inject model record =
     JObj (assign (prop_name (primaryKey (schema model))) (hit_id record) (hit_source record))"

definition get :: "driver \<Rightarrow> osmos_model \<Rightarrow> jsval \<Rightarrow> outcome" where
  "get self model key =
     (let params = \<lparr>get_index = index self, get_type = bucket model, get_id = key\<rparr>
      in case es_get (client self) params of
           (err, result) \<Rightarrow>
             if truthy err
             then \<lparr>calls = [Get params], callback = Some [err], thrown = None\<rparr>
             else (case result of
                     None \<Rightarrow> \<lparr>calls = [Get params], callback = None,
                              thrown = Some (TypeError ''result is undefined'')\<rparr>
                   | Some r \<Rightarrow> \<lparr>calls = [Get params],
                                callback = Some [JNull, inject model r], thrown = None\<rparr>))"

text \<open>\<open>post\<close> assigns \<open>document.primaryKey\<close> on success: it returns the document too.\<close>

definition post :: "driver \<Rightarrow> osmos_document \<Rightarrow> fields \<Rightarrow> osmos_document \<times> outcome" where
  "post self document data =
     (let payload = \<lparr>idx_index = index self, idx_type = bucket (doc_model document),
                      idx_body = data, idx_published = True, idx_refresh = True,
                      idx_consistency = ''quorum'',
                      idx_id = (if truthy (doc_primaryKey document)
                                then Some (doc_primaryKey document) else None)\<rparr>
      in case es_index (client self) payload of
           (err, result) \<Rightarrow>
             if truthy err
             then (document, \<lparr>calls = [Index payload], callback = Some [err], thrown = None\<rparr>)
             else (case result of
                     None \<Rightarrow> (document, \<lparr>calls = [Index payload], callback = None,
                                         thrown = Some (TypeError ''result is undefined'')\<rparr>)
                   | Some r \<Rightarrow> (document\<lparr>doc_primaryKey := result_id r\<rparr>,
                                \<lparr>calls = [Index payload], callback = Some [JNull],
                                 thrown = None\<rparr>)))"

text \<open>
  The loop of \<open>put\<close> over \<open>Object.keys(changes.value)\<close>, one step per entry: it fills
  \<open>diff\<close>, \<open>set\<close> and \<open>unset\<close>, in this order in the triple.
\<close>

definition put_step ::
  "fields \<Rightarrow> fields \<times> fields \<times> fields \<Rightarrow> string \<times> field_change \<Rightarrow> fields \<times> fields \<times> fields" where
  "put_step data acc entry =
     (case acc of (diff', set', unset') \<Rightarrow>
        case entry of (key, change) \<Rightarrow>
          let val = lookup data key
          in if status change \<noteq> Unchanged
             then (assign key val diff',
                   if val = JUndefined then set' else assign key val set',
                   if val = JUndefined then assign key (JStr []) unset' else unset')
             else (diff', set', unset'))"

definition put_changes :: "change_set \<Rightarrow> fields \<Rightarrow> fields \<times> fields \<times> fields" where
  "put_changes changes data = foldl (put_step data) ([], [], []) (value changes)"

text \<open>The function that \<open>put\<close> hands to \<open>process.nextTick\<close>.\<close>

definition put_tick :: "driver \<Rightarrow> osmos_document \<Rightarrow> fields \<Rightarrow> osmos_document \<times> outcome" where
  "put_tick self document data =
     (if \<not> declared (primaryKey (schema (doc_model document))) \<or> \<not> truthy (doc_primaryKey document)
      then (document, \<lparr>calls = [], callback = None,
                       thrown = Some (OsmosError ''You cannot put a document without a primary key'')\<rparr>)
      else if lookup (originalData document) (prop_name (primaryKey (schema (doc_model document))))
              = JUndefined
      then post self document data
      else
        let changes = diff (originalData document) data
        in if is_empty changes
           then (document, \<lparr>calls = [], callback = Some [JNull], thrown = None\<rparr>)
           else
             case put_changes changes data of
               (diff', set', unset') \<Rightarrow>
                 let primaryKey' =
                       (if truthy (lookup diff' (prop_name (primaryKey (doc_schema document))))
                        then lookup (originalData document)
                               (prop_name (primaryKey (doc_schema document)))
                        else doc_primaryKey document);
                     payload = \<lparr>upd_index = index self, upd_type = bucket (doc_model document),
                                upd_consistency = ''quorum'', upd_refresh = True,
                                upd_doc = diff', upd_id = primaryKey'\<rparr>
                 in (document, \<lparr>calls = [Update payload],
                                 callback = Some (es_update (client self) payload),
                                 thrown = None\<rparr>))"

definition put :: "driver \<Rightarrow> osmos_document \<Rightarrow> fields \<Rightarrow> (osmos_document \<times> outcome) deferred" where
  "put self document data = NextTick (put_tick self document data)"

text \<open>
  \<open>Object.keys(key)[0]\<close>: the names that are array indices (a decimal numeral without a
  leading zero, below \<open>2^32 - 1\<close>) come first, in ascending order, and the other names
  follow in insertion order; so the first name is the least array index if there is one,
  and the first name inserted otherwise.
\<close>

definition digit :: "char \<Rightarrow> bool" where
  "digit c = (48 \<le> (of_char c :: nat) \<and> (of_char c :: nat) \<le> 57)"

definition index_value :: "string \<Rightarrow> nat" where
  "index_value s = foldl (\<lambda>n c. 10 * n + (of_char c - 48)) 0 s"

definition array_index :: "string \<Rightarrow> bool" where
  "array_index s =
     (case s of
        [] \<Rightarrow> False
      | c # cs \<Rightarrow> list_all digit s \<and> (cs = [] \<or> c \<noteq> CHR ''0'') \<and> index_value s < 4294967295)"

definition first_key :: "fields \<Rightarrow> string option" where
  "first_key props =
     (case filter array_index (keys props) of
        [] \<Rightarrow> (case keys props of [] \<Rightarrow> None | k # _ \<Rightarrow> Some k)
      | i # rest \<Rightarrow>
          Some (foldl (\<lambda>least k. if index_value k < index_value least then k else least) i rest))"

text \<open>
  Lines 150 to 152 of \<open>del\<close>: \<open>if (key.constructor.name === 'Object') key =
  key[Object.keys(key)[0]]\<close>. Reading \<open>key.constructor\<close> throws on \<open>undefined\<close> and
  \<open>null\<close>. A boolean, a number, a string and an array have the constructor of their
  kind, whose name is not \<open>'Object'\<close>: the key stays. A plain object with no property of
  its own named \<open>constructor\<close> has the constructor \<open>Object\<close>: the key becomes the value
  of its first property (\<open>undefined\<close> when it has none). A plain object with a
  \<open>constructor\<close> property of its own is judged by that value: reading its \<open>name\<close> throws
  when it is \<open>undefined\<close> or \<open>null\<close>, and the key is unwrapped only when the value is an
  object whose \<open>name\<close> is the string \<open>'Object'\<close>.
\<close>

definition del_key :: "jsval \<Rightarrow> error + jsval" where
  "del_key key =
     (case key of
        JUndefined \<Rightarrow> Inl (TypeError ''Cannot read property constructor of undefined'')
      | JNull \<Rightarrow> Inl (TypeError ''Cannot read property constructor of null'')
      | JObj props \<Rightarrow>
          let unwrapped = (case first_key props of None \<Rightarrow> JUndefined | Some k \<Rightarrow> lookup props k)
          in if has props ''constructor''
             then (case lookup props ''constructor'' of
                     JUndefined \<Rightarrow> Inl (TypeError ''Cannot read property name of undefined'')
                   | JNull \<Rightarrow> Inl (TypeError ''Cannot read property name of null'')
                   | JObj constructor \<Rightarrow>
                       if lookup constructor ''name'' = JStr ''Object''
                       then Inr unwrapped else Inr key
                   | _ \<Rightarrow> Inr key)
             else Inr unwrapped
      | _ \<Rightarrow> Inr key)"

definition del :: "driver \<Rightarrow> osmos_model \<Rightarrow> jsval \<Rightarrow> outcome" where
  "del self model key =
     (case del_key key of
        Inl e \<Rightarrow> \<lparr>calls = [], callback = None, thrown = Some e\<rparr>
      | Inr key' \<Rightarrow>
          let params = \<lparr>del_index = index self, del_type = bucket model, del_id = key',
                        del_refresh = True\<rparr>
          in case es_delete (client self) params of
               (err, result) \<Rightarrow> \<lparr>calls = [Delete params], callback = Some [err], thrown = None\<rparr>)"

definition findOne :: "driver \<Rightarrow> osmos_model \<Rightarrow> fields \<Rightarrow> outcome" where
  "findOne self model spec =
     (let body = merge [(''size'', JNum 1)] spec;
          query = \<lparr>q_index = index self, q_type = bucket model, q_body = body\<rparr>
      in case es_search (client self) query of
           (err, result) \<Rightarrow>
             if truthy err
             then \<lparr>calls = [Search query], callback = Some [err], thrown = None\<rparr>
             else (case result of
                     None \<Rightarrow> \<lparr>calls = [Search query], callback = None,
                              thrown = Some (TypeError ''result is undefined'')\<rparr>
                   | Some r \<Rightarrow>
                       (case map (inject model) (hits r) of
                          first # _ \<Rightarrow> \<lparr>calls = [Search query],
                                         callback = Some [JNull, first], thrown = None\<rparr>
                        | [] \<Rightarrow> \<lparr>calls = [Search query],
                                  callback = Some [JNull, JNull], thrown = None\<rparr>)))"

text \<open>The driver's \<open>find\<close>, renamed since \<open>find\<close> is a function on lists.\<close>

definition find_records :: "driver \<Rightarrow> osmos_model \<Rightarrow> fields \<Rightarrow> outcome" where
  "find_records self model spec =
     (let body = merge [(''size'', JNum 9999999)] spec;
          query = \<lparr>q_index = index self, q_type = bucket model, q_body = body\<rparr>
      in case es_search (client self) query of
           (err, result) \<Rightarrow>
             if truthy err
             then \<lparr>calls = [Search query], callback = Some [err, JArr []], thrown = None\<rparr>
             else (case result of
                     None \<Rightarrow> \<lparr>calls = [Search query], callback = None,
                              thrown = Some (TypeError ''result is undefined'')\<rparr>
                   | Some r \<Rightarrow> \<lparr>calls = [Search query],
                                callback = Some [JNull, JArr (map (inject model) (hits r))],
                                thrown = None\<rparr>))"

definition findLimit :: "driver \<Rightarrow> osmos_model \<Rightarrow> fields \<Rightarrow> int \<Rightarrow> int \<Rightarrow> outcome" where
  "findLimit self model spec start limit =
     (let body = merge [(''from'', JNum start), (''size'', JNum limit)] spec;
          query = \<lparr>q_index = index self, q_type = bucket model, q_body = body\<rparr>
      in case es_search (client self) query of
           (err, result) \<Rightarrow>
             if truthy err
             then \<lparr>calls = [Search query], callback = Some [err, JArr []], thrown = None\<rparr>
             else (case result of
                     None \<Rightarrow> \<lparr>calls = [Search query], callback = None,
                              thrown = Some (TypeError ''result is undefined'')\<rparr>
                   | Some r \<Rightarrow>
                       \<lparr>calls = [Search query],
                        callback = Some [JNull,
                                         JObj [(''docs'', JArr (map (inject model) (hits r))),
                                               (''count'', total r),
                                               (''start'', JNum start),
                                               (''limit'', JNum limit)]],
                        thrown = None\<rparr>))"

section \<open>A store held in memory\<close>

text \<open>
  To run the driver on concrete inputs, a client over one index held in memory. It
  answers as the search store's client does: a request naming an identifier that the
  index does not hold is answered with a 404 error, since the driver's requests carry no
  \<open>ignore\<close> option; a search matches every record of the index and returns the window
  that \<open>from\<close> and \<open>size\<close> of the request body select (from the first record and ten
  records when the body does not say), with the number of all matches as total.
\<close>

type_synonym stored = "(jsval \<times> fields) list"

definition not_found :: jsval where
  "not_found = JObj [(''status'', JNum 404), (''message'', JStr ''Not Found'')]"

definition window :: "fields \<Rightarrow> hit list \<Rightarrow> hit list" where
  "window body matches =
     (let from = (case lookup body ''from'' of JNum n \<Rightarrow> nat n | _ \<Rightarrow> 0);
          size' = (case lookup body ''size'' of JNum n \<Rightarrow> nat n | _ \<Rightarrow> 10)
      in take size' (drop from matches))"

definition memory_client :: "stored \<Rightarrow> es_client" where
  "memory_client records =
     \<lparr>es_get = (\<lambda>p. case map_of records (get_id p) of
                       Some src \<Rightarrow> (JNull, Some \<lparr>hit_id = get_id p, hit_source = src\<rparr>)
                     | None \<Rightarrow> (not_found, None)),
      es_index = (\<lambda>p. (JNull, Some \<lparr>result_id = (case idx_id p of Some i \<Rightarrow> i
                                                   | None \<Rightarrow> JStr ''generated'')\<rparr>)),
      es_update = (\<lambda>p. case map_of records (upd_id p) of
                          Some src \<Rightarrow> [JNull, JObj [(''_id'', upd_id p)]]
                        | None \<Rightarrow> [not_found]),
      es_delete = (\<lambda>p. case map_of records (del_id p) of
                          Some src \<Rightarrow> (JNull, JObj [(''found'', JBool True)])
                        | None \<Rightarrow> (not_found, JObj [(''found'', JBool False)])),
      es_search = (\<lambda>q. let matches = map (\<lambda>(i, src). \<lparr>hit_id = i, hit_source = src\<rparr>) records
                        in (JNull, Some \<lparr>hits = window (q_body q) matches,
                                         total = JNum (int (length matches))\<rparr>))\<rparr>"

definition memory_driver :: "stored \<Rightarrow> driver" where
  "memory_driver records = \<lparr>client = memory_client records, index = ''osmos''\<rparr>"

text \<open>A schema with primary key \<open>id\<close>, its model, and fifteen stored records.\<close>

definition person :: osmos_model where
  "person = \<lparr>bucket = ''person'', schema = \<lparr>primaryKey = Some ''id''\<rparr>\<rparr>"

definition fifteen :: stored where
  "fifteen = map (\<lambda>n. (JNum n, [(''name'', JStr ''Marco'')]))
               [0, 1, 2, 3, 4, 5, 6, 7, 8, 9, 10, 11, 12, 13, 14]"

text \<open>The page that the callback of \<open>findLimit\<close> received: its records and its other
  properties.\<close>

definition page_docs :: "outcome \<Rightarrow> jsval list" where
  "page_docs out =
     (case callback out of
        Some [err, JObj page] \<Rightarrow> (case lookup page ''docs'' of JArr records \<Rightarrow> records | _ \<Rightarrow> [])
      | _ \<Rightarrow> [])"

definition page_field :: "outcome \<Rightarrow> string \<Rightarrow> jsval" where
  "page_field out name =
     (case callback out of Some [err, JObj page] \<Rightarrow> lookup page name | _ \<Rightarrow> JUndefined)"

text \<open>A document as \<open>get\<close> delivers it, and data that renames it, drops its email and
  adds an age.\<close>

definition marco :: osmos_document where
  "marco = \<lparr>doc_model = person, doc_schema = schema person, doc_primaryKey = JStr ''k1'',
            originalData = [(''id'', JStr ''k1''), (''name'', JStr ''Marco''),
                            (''email'', JStr ''marcot@tabini.ca'')]\<rparr>"

definition joe :: fields where
  "joe = [(''id'', JStr ''k1''), (''name'', JStr ''Joe''), (''age'', JNum 3)]"

text \<open>A document created empty and given a key by its caller before its first save; one
  with no key; one whose schema declares no primary key.\<close>

definition unsaved :: osmos_document where
  "unsaved = \<lparr>doc_model = person, doc_schema = schema person, doc_primaryKey = JStr ''k1'',
              originalData = []\<rparr>"

definition keyless :: osmos_document where
  "keyless = \<lparr>doc_model = person, doc_schema = schema person, doc_primaryKey = JUndefined,
              originalData = []\<rparr>"

definition schemaless :: osmos_document where
  "schemaless = \<lparr>doc_model = \<lparr>bucket = ''person'', schema = \<lparr>primaryKey = None\<rparr>\<rparr>,
                 doc_schema = \<lparr>primaryKey = None\<rparr>, doc_primaryKey = JStr ''k1'',
                 originalData = [(''name'', JStr ''Marco'')]\<rparr>"

text \<open>The fields of \<open>marco\<close> in another order; the data of a first save.\<close>

definition reordered :: fields where
  "reordered = [(''email'', JStr ''marcot@tabini.ca''), (''name'', JStr ''Marco''),
                (''id'', JStr ''k1'')]"

definition manu :: fields where
  "manu = [(''id'', JStr ''k1''), (''name'', JStr ''Manu''), (''email'', JStr ''manu@example.org'')]"

text \<open>A stored document whose caller holds another key in memory, with data that sets its
  \<open>id\<close> field to \<open>null\<close>, or to the key in memory; and the data of \<open>marco\<close> without the
  email.\<close>

definition rekeyed :: osmos_document where
  "rekeyed = \<lparr>doc_model = person, doc_schema = schema person, doc_primaryKey = JStr ''k2'',
              originalData = [(''id'', JStr ''k1''), (''name'', JStr ''Marco'')]\<rparr>"

definition nulled :: fields where
  "nulled = [(''id'', JNull), (''name'', JStr ''Marco'')]"

definition renamed :: fields where
  "renamed = [(''id'', JStr ''k2''), (''name'', JStr ''Marco'')]"

definition trimmed :: fields where
  "trimmed = [(''id'', JStr ''k1''), (''name'', JStr ''Marco'')]"

text \<open>An index of one record; a query that matches every record; the first ten hits of
  \<open>fifteen\<close>.\<close>

definition one_record :: stored where
  "one_record = [(JStr ''a'', [(''name'', JStr ''Marco'')])]"

text \<open>A key given as an object: its first property is the one named \<open>1\<close>.\<close>

definition by_name :: jsval where
  "by_name = JObj [(''name'', JStr ''Marco''), (''1'', JStr ''a'')]"

definition match_all :: fields where
  "match_all = [(''query'', JObj [(''match_all'', JObj [])])]"

definition first_ten :: "hit list" where
  "first_ten = map (\<lambda>n. \<lparr>hit_id = JNum n, hit_source = [(''name'', JStr ''Marco'')]\<rparr>)
                 [0, 1, 2, 3, 4, 5, 6, 7, 8, 9]"

section \<open>Objects and the diff\<close>

lemma map_fst_assign: "set (map fst (assign k v obj)) = insert k (set (map fst obj))"
proof (induction obj)
  case Nil
  show ?case by simp
next
  case (Cons e obj)
  obtain k' v' where e: "e = (k', v')" by (cases e)
  show ?case
  proof (cases "k' = k")
    case True
    then show ?thesis by (simp add: e)
  next
    case False
    have "set (map fst (assign k v (e # obj))) = insert k' (set (map fst (assign k v obj)))"
      using False by (simp add: e)
    also have "\<dots> = insert k' (insert k (set (map fst obj)))"
      by (simp only: Cons.IH)
    finally show ?thesis by (auto simp: e)
  qed
qed

lemma keys_assign: "set (keys (assign k v obj)) = insert k (set (keys obj))"
  by (simp only: keys_def map_fst_assign)

lemma lookup_assign: "lookup (assign k v obj) k' = (if k' = k then v else lookup obj k')"
  by (induction obj) (auto simp: lookup_def)

lemma has_assign: "has (assign k v obj) k' = (k' = k \<or> has obj k')"
  by (auto simp: has_def keys_assign)

lemma diff_changed_names:
  "{k. \<exists>c. (k, c) \<in> set (value (diff original current)) \<and> status c \<noteq> Unchanged}
     = differing original current"
  by (auto simp: diff_def differing_def Let_def)

lemma diff_is_empty: "is_empty (diff original current) = (differing original current = {})"
  by (auto simp: diff_def differing_def Let_def list_all_iff)

lemma deep_equal_no_difference:
  assumes "deep_equal (JObj original) (JObj current)"
  shows "differing original current = {}"
  using assms
  by (auto simp: differing_def field_names_def classify_def has_def keys_def list_all_iff)

section \<open>The loop of put\<close>

lemma put_step_keys:
  "set (keys (fst (put_step data acc (k, c)))) =
     set (keys (fst acc)) \<union> (if status c \<noteq> Unchanged then {k} else {})"
  by (cases acc) (auto simp: put_step_def Let_def keys_assign)

lemma put_loop_keys:
  "set (keys (fst (foldl (put_step data) acc entries))) =
     set (keys (fst acc)) \<union> {k. \<exists>c. (k, c) \<in> set entries \<and> status c \<noteq> Unchanged}"
proof (induction entries arbitrary: acc)
  case Nil
  then show ?case by simp
next
  case (Cons e entries)
  obtain k c where e: "e = (k, c)" by (cases e)
  show ?case
    unfolding e foldl_Cons Cons.IH put_step_keys by auto
qed

lemma put_step_values:
  assumes "\<forall>k'. has (fst acc) k' \<longrightarrow> lookup (fst acc) k' = lookup data k'"
  shows "has (fst (put_step data acc (k, c))) k' \<longrightarrow>
         lookup (fst (put_step data acc (k, c))) k' = lookup data k'"
  using assms by (cases acc) (auto simp: put_step_def Let_def has_assign lookup_assign)

lemma put_loop_values:
  "(\<forall>k'. has (fst acc) k' \<longrightarrow> lookup (fst acc) k' = lookup data k') \<Longrightarrow>
   has (fst (foldl (put_step data) acc entries)) k' \<Longrightarrow>
   lookup (fst (foldl (put_step data) acc entries)) k' = lookup data k'"
proof (induction entries arbitrary: acc)
  case Nil
  then show ?case by simp
next
  case (Cons e entries)
  obtain k c where e: "e = (k, c)" by (cases e)
  have "\<forall>k'. has (fst (put_step data acc (k, c))) k' \<longrightarrow>
          lookup (fst (put_step data acc (k, c))) k' = lookup data k'"
    using put_step_values [OF Cons.prems(1)] by blast
  from Cons.IH [OF this] Cons.prems(2) show ?case
    by (simp add: e)
qed

lemma put_changes_keys:
  "set (keys (fst (put_changes (diff original data) data))) = differing original data"
  unfolding put_changes_def put_loop_keys diff_changed_names by (simp add: keys_def)

lemma put_changes_values:
  "has (fst (put_changes (diff original data) data)) k \<Longrightarrow>
   lookup (fst (put_changes (diff original data) data)) k = lookup data k"
  unfolding put_changes_def by (rule put_loop_values) (simp_all add: has_def keys_def)

section \<open>What put sends\<close>

lemma post_calls: "\<exists>payload. calls (snd (post self document data)) = [Index payload]"
  by (simp add: post_def Let_def split: prod.splits option.splits)

lemma put_tick_calls:
  "calls (snd (put_tick self document data)) = []
   \<or> (\<exists>payload. calls (snd (put_tick self document data)) = [Index payload])
   \<or> (\<exists>payload. calls (snd (put_tick self document data)) = [Update payload]
         \<and> upd_doc payload = fst (put_changes (diff (originalData document) data) data))"
  using post_calls [of self document data]
  by (auto simp: put_tick_def Let_def split: prod.splits)

lemma put_tick_update:
  assumes "declared (primaryKey (schema (doc_model document)))"
    and "truthy (doc_primaryKey document)"
    and "lookup (originalData document) (prop_name (primaryKey (schema (doc_model document))))
           \<noteq> JUndefined"
    and "\<not> is_empty (diff (originalData document) data)"
  shows "\<exists>payload. calls (snd (put_tick self document data)) = [Update payload]"
  using assms by (simp add: put_tick_def Let_def split: prod.splits)

text \<open>
  C1. Whenever \<open>put\<close>, called with a document whose original snapshot has a value under
  the primary-key name, sends an update to the store, the \<open>doc\<close> of the payload has
  exactly the fields on which the original snapshot and the supplied data differ
  (changed, added or removed): no field that the diff classifies as unchanged is in it,
  and each field in it carries the value of the supplied data (\<open>undefined\<close> for a removed
  field). Such an update is sent whenever the schema declares a primary key, the
  document has one and some field differs.
\<close>

theorem put_payload_is_exactly_the_difference:
  assumes "lookup (originalData document) (prop_name (primaryKey (schema (doc_model document))))
             \<noteq> JUndefined"
  shows "(\<forall>payload. Update payload \<in> set (calls (snd (later (put self document data)))) \<longrightarrow>
            set (keys (upd_doc payload)) = differing (originalData document) data
            \<and> (\<forall>k. classify (originalData document) data k = Unchanged \<longrightarrow>
                   \<not> has (upd_doc payload) k)
            \<and> (\<forall>k. has (upd_doc payload) k \<longrightarrow> lookup (upd_doc payload) k = lookup data k))
       \<and> (declared (primaryKey (schema (doc_model document))) \<and> truthy (doc_primaryKey document)
            \<and> differing (originalData document) data \<noteq> {} \<longrightarrow>
          (\<exists>payload. calls (snd (later (put self document data))) = [Update payload]))"
proof (intro conjI allI impI)
  fix payload
  assume sent: "Update payload \<in> set (calls (snd (later (put self document data))))"
  with put_tick_calls [of self document data]
  have doc: "upd_doc payload = fst (put_changes (diff (originalData document) data) data)"
    by (auto simp: put_def)
  show keys: "set (keys (upd_doc payload)) = differing (originalData document) data"
    by (simp only: doc put_changes_keys)
  show "\<not> has (upd_doc payload) k" if "classify (originalData document) data k = Unchanged" for k
    using that keys by (auto simp: has_def differing_def)
  show "lookup (upd_doc payload) k = lookup data k" if "has (upd_doc payload) k" for k
    using that unfolding doc by (rule put_changes_values)
next
  assume "declared (primaryKey (schema (doc_model document))) \<and> truthy (doc_primaryKey document)
            \<and> differing (originalData document) data \<noteq> {}"
  with assms put_tick_update [of document data self]
  show "\<exists>payload. calls (snd (later (put self document data))) = [Update payload]"
    by (simp add: diff_is_empty put_def)
qed

theorem put_payload_is_exactly_the_difference_witness:
  "lookup (originalData marco) (prop_name (primaryKey (schema (doc_model marco)))) \<noteq> JUndefined
   \<and> calls (snd (later (put (memory_driver []) marco joe)))
       = [Update \<lparr>upd_index = ''osmos'', upd_type = ''person'', upd_consistency = ''quorum'',
                  upd_refresh = True,
                  upd_doc = [(''name'', JStr ''Joe''), (''email'', JUndefined), (''age'', JNum 3)],
                  upd_id = JStr ''k1''\<rparr>]
   \<and> differing (originalData marco) joe = {''name'', ''email'', ''age''}"
proof -
  have h: "lookup (originalData marco) (prop_name (primaryKey (schema (doc_model marco))))
             \<noteq> JUndefined"
    by (simp add: marco_def person_def prop_name_def lookup_def)
  have c: "calls (snd (later (put (memory_driver []) marco joe)))
       = [Update \<lparr>upd_index = ''osmos'', upd_type = ''person'', upd_consistency = ''quorum'',
                  upd_refresh = True,
                  upd_doc = [(''name'', JStr ''Joe''), (''email'', JUndefined), (''age'', JNum 3)],
                  upd_id = JStr ''k1''\<rparr>]"
    by (simp add: put_def put_tick_def marco_def joe_def person_def memory_driver_def
        memory_client_def declared_def prop_name_def lookup_def diff_def field_names_def
        classify_def has_def keys_def put_changes_def put_step_def Let_def)
  from put_payload_is_exactly_the_difference [OF h, of "memory_driver []" joe] c
  have "set (keys [(''name'', JStr ''Joe''), (''email'', JUndefined), (''age'', JNum 3)])
          = differing (originalData marco) joe"
    by simp
  then have "differing (originalData marco) joe = {''name'', ''email'', ''age''}"
    by (simp add: keys_def)
  with h c show ?thesis by blast
qed

section \<open>The paths of put\<close>

lemmas run_defs = put_def put_tick_def post_def person_def memory_driver_def
        memory_client_def declared_def prop_name_def lookup_def diff_def field_names_def
        classify_def has_def keys_def put_changes_def put_step_def Let_def

text \<open>
  C2, as stated, fails: structural equality of the original snapshot and the data does
  not alone make \<open>put\<close> complete without a store call. For an empty document that was
  given a key and never saved, \<open>put\<close> with empty data delegates to \<open>post\<close>, which sends an
  \<open>index\<close> request; for an empty document with no key, \<open>put\<close> throws and the callback is
  never invoked.
\<close>

theorem put_equal_data_counterexample:
  "deep_equal (JObj (originalData unsaved)) (JObj [])
   \<and> later (put (memory_driver []) unsaved [])
       = (unsaved,
          \<lparr>calls = [Index \<lparr>idx_index = ''osmos'', idx_type = ''person'', idx_body = [],
                            idx_published = True, idx_refresh = True,
                            idx_consistency = ''quorum'', idx_id = Some (JStr ''k1'')\<rparr>],
           callback = Some [JNull], thrown = None\<rparr>)
   \<and> deep_equal (JObj (originalData keyless)) (JObj [])
   \<and> later (put (memory_driver []) keyless [])
       = (keyless,
          \<lparr>calls = [], callback = None,
           thrown = Some (OsmosError ''You cannot put a document without a primary key'')\<rparr>)"
  by (simp add: run_defs unsaved_def keyless_def)

text \<open>
  C2, amended. For a document whose schema declares a primary key, that has a
  primary-key value and whose original snapshot has a value under the primary-key name:
  when the original snapshot is structurally equal to the data, \<open>put\<close> invokes the
  callback with \<open>null\<close> and sends nothing to the store.
\<close>

theorem put_equal_data_sends_nothing:
  assumes "declared (primaryKey (schema (doc_model document)))"
    and "truthy (doc_primaryKey document)"
    and "lookup (originalData document) (prop_name (primaryKey (schema (doc_model document))))
           \<noteq> JUndefined"
    and "deep_equal (JObj (originalData document)) (JObj data)"
  shows "put self document data
           = NextTick (document, \<lparr>calls = [], callback = Some [JNull], thrown = None\<rparr>)"
proof -
  from assms(4) have "is_empty (diff (originalData document) data)"
    by (simp only: diff_is_empty deep_equal_no_difference)
  with assms(1-3) show ?thesis
    by (simp add: put_def put_tick_def)
qed

theorem put_equal_data_sends_nothing_witness:
  "declared (primaryKey (schema (doc_model marco)))
   \<and> truthy (doc_primaryKey marco)
   \<and> lookup (originalData marco) (prop_name (primaryKey (schema (doc_model marco)))) \<noteq> JUndefined
   \<and> deep_equal (JObj (originalData marco)) (JObj reordered)
   \<and> put (memory_driver []) marco reordered
       = NextTick (marco, \<lparr>calls = [], callback = Some [JNull], thrown = None\<rparr>)"
proof -
  have 1: "declared (primaryKey (schema (doc_model marco)))"
    by (simp add: marco_def person_def declared_def)
  have 2: "truthy (doc_primaryKey marco)"
    by (simp add: marco_def)
  have 3: "lookup (originalData marco) (prop_name (primaryKey (schema (doc_model marco))))
             \<noteq> JUndefined"
    by (simp add: marco_def person_def prop_name_def lookup_def)
  have 4: "deep_equal (JObj (originalData marco)) (JObj reordered)"
    by (simp add: marco_def reordered_def lookup_def)
  from put_equal_data_sends_nothing [OF 1 2 3 4, of "memory_driver []"] 1 2 3 4
  show ?thesis by simp
qed

text \<open>
  C9. When the schema declares no primary key or the document has no primary-key value,
  the function that \<open>put\<close> defers to the next tick throws an \<open>OsmosError\<close>: nothing is
  sent to the store and the callback is never invoked, so no error reaches it.
\<close>

theorem put_without_primary_key_throws:
  assumes "\<not> declared (primaryKey (schema (doc_model document)))
           \<or> \<not> truthy (doc_primaryKey document)"
  shows "put self document data
           = NextTick (document,
               \<lparr>calls = [], callback = None,
                thrown = Some (OsmosError ''You cannot put a document without a primary key'')\<rparr>)"
  using assms by (auto simp: put_def put_tick_def)

theorem put_without_primary_key_throws_witness:
  "\<not> truthy (doc_primaryKey keyless)
   \<and> put (memory_driver []) keyless [(''name'', JStr ''Marco'')]
       = NextTick (keyless,
           \<lparr>calls = [], callback = None,
            thrown = Some (OsmosError ''You cannot put a document without a primary key'')\<rparr>)
   \<and> \<not> declared (primaryKey (schema (doc_model schemaless)))
   \<and> put (memory_driver []) schemaless [(''name'', JStr ''Joe'')]
       = NextTick (schemaless,
           \<lparr>calls = [], callback = None,
            thrown = Some (OsmosError ''You cannot put a document without a primary key'')\<rparr>)"
proof -
  have 1: "\<not> truthy (doc_primaryKey keyless)"
    by (simp add: keyless_def)
  have 2: "\<not> declared (primaryKey (schema (doc_model schemaless)))"
    by (simp add: schemaless_def declared_def)
  from 1 have 3: "\<not> declared (primaryKey (schema (doc_model keyless)))
                   \<or> \<not> truthy (doc_primaryKey keyless)" by simp
  from 2 have 4: "\<not> declared (primaryKey (schema (doc_model schemaless)))
                   \<or> \<not> truthy (doc_primaryKey schemaless)" by simp
  from put_without_primary_key_throws [OF 3, of "memory_driver []" "[(''name'', JStr ''Marco'')]"]
       put_without_primary_key_throws [OF 4, of "memory_driver []" "[(''name'', JStr ''Joe'')]"]
       1 2
  show ?thesis by blast
qed

text \<open>
  C10. For a document that has a primary-key value while its original snapshot has no
  value under the primary-key name, \<open>put\<close> does what \<open>post\<close> does: the one request is an
  \<open>index\<close> request whose body is the whole of the supplied data, stored under the
  document's primary key; no update is sent.
\<close>

theorem put_unsaved_delegates_to_post:
  assumes "declared (primaryKey (schema (doc_model document)))"
    and "truthy (doc_primaryKey document)"
    and "lookup (originalData document) (prop_name (primaryKey (schema (doc_model document))))
           = JUndefined"
  shows "put self document data = NextTick (post self document data)
       \<and> calls (snd (post self document data))
           = [Index \<lparr>idx_index = index self, idx_type = bucket (doc_model document),
                     idx_body = data, idx_published = True, idx_refresh = True,
                     idx_consistency = ''quorum'', idx_id = Some (doc_primaryKey document)\<rparr>]"
  using assms
  by (simp add: put_def put_tick_def post_def Let_def split: prod.splits option.splits)

theorem put_unsaved_delegates_to_post_witness:
  "declared (primaryKey (schema (doc_model unsaved)))
   \<and> truthy (doc_primaryKey unsaved)
   \<and> lookup (originalData unsaved) (prop_name (primaryKey (schema (doc_model unsaved)))) = JUndefined
   \<and> later (put (memory_driver []) unsaved manu)
       = (unsaved,
          \<lparr>calls = [Index \<lparr>idx_index = ''osmos'', idx_type = ''person'', idx_body = manu,
                            idx_published = True, idx_refresh = True,
                            idx_consistency = ''quorum'', idx_id = Some (JStr ''k1'')\<rparr>],
           callback = Some [JNull], thrown = None\<rparr>)"
proof -
  have 1: "declared (primaryKey (schema (doc_model unsaved)))"
    by (simp add: unsaved_def person_def declared_def)
  have 2: "truthy (doc_primaryKey unsaved)"
    by (simp add: unsaved_def)
  have 3: "lookup (originalData unsaved) (prop_name (primaryKey (schema (doc_model unsaved))))
             = JUndefined"
    by (simp add: unsaved_def person_def prop_name_def lookup_def)
  have 4: "post (memory_driver []) unsaved manu
       = (unsaved,
          \<lparr>calls = [Index \<lparr>idx_index = ''osmos'', idx_type = ''person'', idx_body = manu,
                            idx_published = True, idx_refresh = True,
                            idx_consistency = ''quorum'', idx_id = Some (JStr ''k1'')\<rparr>],
           callback = Some [JNull], thrown = None\<rparr>)"
    by (simp add: post_def unsaved_def person_def memory_driver_def memory_client_def)
  from put_unsaved_delegates_to_post [OF 1 2 3, of "memory_driver []" manu] 1 2 3 4
  show ?thesis by simp
qed

section \<open>The key and the fields of an update\<close>

lemma lookup_absent: "\<not> has obj k \<Longrightarrow> lookup obj k = JUndefined"
proof -
  assume "\<not> has obj k"
  then have "map_of obj k = None"
    by (simp add: has_def keys_def map_of_eq_None_iff)
  then show ?thesis by (simp add: lookup_def)
qed

lemma put_changes_lookup:
  "lookup (fst (put_changes (diff original data) data)) k
     = (if k \<in> differing original data then lookup data k else JUndefined)"
proof (cases "has (fst (put_changes (diff original data) data)) k")
  case True
  then show ?thesis
    using put_changes_values [OF True] put_changes_keys [of original data]
    by (simp add: has_def)
next
  case False
  then show ?thesis
    using lookup_absent [OF False] put_changes_keys [of original data]
    by (simp add: has_def)
qed

lemma put_tick_update_id:
  assumes "Update payload \<in> set (calls (snd (put_tick self document data)))"
  shows "upd_id payload =
           (if truthy (lookup (fst (put_changes (diff (originalData document) data) data))
                          (prop_name (primaryKey (doc_schema document))))
            then lookup (originalData document) (prop_name (primaryKey (doc_schema document)))
            else doc_primaryKey document)"
  using assms post_calls [of self document data]
  by (auto simp: put_tick_def Let_def split: prod.splits if_splits)

text \<open>
  C3, as stated, fails. The driver tests the new value of the primary-key field for
  truth (\<open>if (diff[document.schema.primaryKey])\<close>), not the field for membership in the
  change set: when the field is changed to \<open>null\<close>, the write is addressed by the key the
  document holds in memory (\<open>k2\<close>), not by the key of the original snapshot (\<open>k1\<close>).
\<close>

theorem put_addressing_counterexample:
  "classify (originalData rekeyed) nulled ''id'' = Changed
   \<and> lookup (originalData rekeyed) ''id'' = JStr ''k1''
   \<and> calls (snd (later (put (memory_driver []) rekeyed nulled)))
       = [Update \<lparr>upd_index = ''osmos'', upd_type = ''person'', upd_consistency = ''quorum'',
                  upd_refresh = True, upd_doc = [(''id'', JNull)], upd_id = JStr ''k2''\<rparr>]"
  by (simp add: run_defs rekeyed_def nulled_def)

text \<open>
  C3, amended. Every update that \<open>put\<close> sends is addressed by the primary-key value of
  the original snapshot when the primary-key field (as the document's schema names it)
  differs between the original snapshot and the data and its new value is truthy; in
  every other case, the field unchanged or its new value falsy, it is addressed by the
  primary key the document holds.
\<close>

theorem put_addressing:
  assumes "Update payload \<in> set (calls (snd (later (put self document data))))"
  shows "upd_id payload =
           (if prop_name (primaryKey (doc_schema document)) \<in> differing (originalData document) data
               \<and> truthy (lookup data (prop_name (primaryKey (doc_schema document))))
            then lookup (originalData document) (prop_name (primaryKey (doc_schema document)))
            else doc_primaryKey document)"
proof -
  from assms have "Update payload \<in> set (calls (snd (put_tick self document data)))"
    by (simp add: put_def)
  from put_tick_update_id [OF this] show ?thesis
    by (simp add: put_changes_lookup)
qed

theorem put_addressing_witness:
  "Update \<lparr>upd_index = ''osmos'', upd_type = ''person'', upd_consistency = ''quorum'',
           upd_refresh = True, upd_doc = [(''id'', JStr ''k2'')], upd_id = JStr ''k1''\<rparr>
     \<in> set (calls (snd (later (put (memory_driver []) rekeyed renamed))))
   \<and> ''id'' \<in> differing (originalData rekeyed) renamed
   \<and> lookup (originalData rekeyed) ''id'' = JStr ''k1''"
proof -
  have c: "Update \<lparr>upd_index = ''osmos'', upd_type = ''person'', upd_consistency = ''quorum'',
           upd_refresh = True, upd_doc = [(''id'', JStr ''k2'')], upd_id = JStr ''k1''\<rparr>
     \<in> set (calls (snd (later (put (memory_driver []) rekeyed renamed))))"
    by (simp add: run_defs rekeyed_def renamed_def)
  have n: "prop_name (primaryKey (doc_schema rekeyed)) = ''id''"
    by (simp add: rekeyed_def person_def prop_name_def)
  have d: "doc_primaryKey rekeyed = JStr ''k2''"
    by (simp add: rekeyed_def)
  have o: "lookup (originalData rekeyed) ''id'' = JStr ''k1''"
    by (simp add: rekeyed_def lookup_def)
  from put_addressing [OF c] have "''id'' \<in> differing (originalData rekeyed) renamed"
    unfolding n d o by (simp split: if_splits)
  with c o show ?thesis by blast
qed

text \<open>
  C4 fails on the code. For a document whose data no longer has the \<open>email\<close> field, the
  diff classifies the field as removed and the loop of \<open>put\<close> records it in \<open>unset\<close>;
  but neither \<open>set\<close> nor \<open>unset\<close> is used after the loop. The one request is an update
  whose \<open>doc\<close> holds \<open>email\<close> with the value \<open>undefined\<close>, which asks the store to unset
  nothing.
\<close>

theorem put_removed_field_is_not_unset:
  "classify (originalData marco) trimmed ''email'' = Removed
   \<and> put_changes (diff (originalData marco) trimmed) trimmed
       = ([(''email'', JUndefined)], [], [(''email'', JStr [])])
   \<and> later (put (memory_driver [(JStr ''k1'', originalData marco)]) marco trimmed)
       = (marco,
          \<lparr>calls = [Update \<lparr>upd_index = ''osmos'', upd_type = ''person'',
                             upd_consistency = ''quorum'', upd_refresh = True,
                             upd_doc = [(''email'', JUndefined)], upd_id = JStr ''k1''\<rparr>],
           callback = Some [JNull, JObj [(''_id'', JStr ''k1'')]], thrown = None\<rparr>)"
  by (simp add: run_defs marco_def trimmed_def)

section \<open>Reading and deleting\<close>

lemmas store_defs = memory_driver_def memory_client_def person_def not_found_def window_def
  merge_def lookup_def prop_name_def inject_def Let_def

text \<open>
  C5, as stated, fails. \<open>del\<close> hands the error of the store's answer to the callback as
  it is. The store answers a delete of an identifier it does not hold with a 404 error,
  and the callback receives that error.
\<close>

theorem del_missing_key_counterexample:
  "del (memory_driver one_record) person (JStr ''b'')
     = \<lparr>calls = [Delete \<lparr>del_index = ''osmos'', del_type = ''person'', del_id = JStr ''b'',
                          del_refresh = True\<rparr>],
        callback = Some [JObj [(''status'', JNum 404), (''message'', JStr ''Not Found'')]],
        thrown = None\<rparr>
   \<and> truthy (JObj [(''status'', JNum 404), (''message'', JStr ''Not Found'')])"
  by (simp add: del_def del_key_def store_defs one_record_def)

text \<open>When \<open>del\<close> cannot read the constructor's name of its key, it throws before any
  request: nothing is sent and the callback is never invoked.\<close>

lemma del_throws:
  "del_key key = Inl e \<Longrightarrow> del self model key = \<lparr>calls = [], callback = None, thrown = Some e\<rparr>"
  by (simp add: del_def)

lemma del_key_throws_iff:
  "(\<exists>e. del_key key = Inl e) =
     (key = JUndefined \<or> key = JNull
      \<or> (\<exists>props. key = JObj props \<and> has props ''constructor''
            \<and> (lookup props ''constructor'' = JUndefined \<or> lookup props ''constructor'' = JNull)))"
  by (cases key) (auto simp: del_key_def Let_def split: jsval.splits)

lemma del_key_primitive: "del_key (JBool b) = Inr (JBool b)" "del_key (JNum n) = Inr (JNum n)"
  "del_key (JStr s) = Inr (JStr s)" "del_key (JArr xs) = Inr (JArr xs)"
  by (simp_all add: del_key_def)

text \<open>
  C5, amended. For every key from which \<open>del\<close> derives an identifier (lines 150 to 152:
  every key but \<open>undefined\<close>, \<open>null\<close> and an object whose own \<open>constructor\<close> property is
  \<open>undefined\<close> or \<open>null\<close>, on which \<open>del\<close> throws), \<open>del\<close> sends one delete request for
  that identifier and the callback receives exactly the error value of the store's
  answer: no error when the store reports none, and the store's error, such as the one
  for a key that does not exist, otherwise.
\<close>

theorem del_forwards_the_outcome:
  assumes "del_key key = Inr target"
    and "es_delete (client self)
           \<lparr>del_index = index self, del_type = bucket model, del_id = target,
            del_refresh = True\<rparr> = (err, result)"
  shows "del self model key
           = \<lparr>calls = [Delete \<lparr>del_index = index self, del_type = bucket model,
                                del_id = target, del_refresh = True\<rparr>],
              callback = Some [err], thrown = None\<rparr>"
  using assms by (simp add: del_def Let_def)

theorem del_forwards_the_outcome_witness:
  "del_key (JStr ''a'') = Inr (JStr ''a'')
   \<and> es_delete (client (memory_driver one_record))
        \<lparr>del_index = index (memory_driver one_record), del_type = bucket person,
         del_id = JStr ''a'', del_refresh = True\<rparr>
       = (JNull, JObj [(''found'', JBool True)])
   \<and> del (memory_driver one_record) person (JStr ''a'')
       = \<lparr>calls = [Delete \<lparr>del_index = ''osmos'', del_type = ''person'', del_id = JStr ''a'',
                            del_refresh = True\<rparr>],
          callback = Some [JNull], thrown = None\<rparr>
   \<and> del_key by_name = Inr (JStr ''a'')
   \<and> del (memory_driver one_record) person by_name
       = \<lparr>calls = [Delete \<lparr>del_index = ''osmos'', del_type = ''person'', del_id = JStr ''a'',
                            del_refresh = True\<rparr>],
          callback = Some [JNull], thrown = None\<rparr>"
proof -
  have 1: "del_key (JStr ''a'') = Inr (JStr ''a'')"
    by (simp add: del_key_def)
  have 2: "del_key by_name = Inr (JStr ''a'')"
    by (simp add: del_key_def by_name_def first_key_def array_index_def digit_def
        index_value_def keys_def has_def lookup_def)
  have 3: "es_delete (client (memory_driver one_record))
        \<lparr>del_index = index (memory_driver one_record), del_type = bucket person,
         del_id = JStr ''a'', del_refresh = True\<rparr>
       = (JNull, JObj [(''found'', JBool True)])"
    by (simp add: store_defs one_record_def)
  from del_forwards_the_outcome [OF 1 3] del_forwards_the_outcome [OF 2 3] 1 2 3
  show ?thesis
    by (simp add: memory_driver_def person_def)
qed

text \<open>
  C6, as stated, fails. With no matching record \<open>findOne\<close> reports plain success with a
  \<open>null\<close> value: the callback receives \<open>(null, null)\<close>.
\<close>

theorem findOne_no_match_counterexample:
  "findOne (memory_driver []) person [(''query'', JStr ''email:nobody'')]
     = \<lparr>calls = [Search \<lparr>q_index = ''osmos'', q_type = ''person'',
                          q_body = [(''size'', JNum 1), (''query'', JStr ''email:nobody'')]\<rparr>],
        callback = Some [JNull, JNull], thrown = None\<rparr>"
  by (simp add: findOne_def store_defs)

text \<open>
  C6, amended. For every query spec for which the store's search succeeds with no hit,
  \<open>findOne\<close> invokes the callback with \<open>(null, null)\<close>: no error, and \<open>null\<close> as the
  result.
\<close>

theorem findOne_no_match_is_null:
  assumes "es_search (client self)
             \<lparr>q_index = index self, q_type = bucket model,
              q_body = merge [(''size'', JNum 1)] spec\<rparr> = (err, Some r)"
    and "\<not> truthy err"
    and "hits r = []"
  shows "findOne self model spec
           = \<lparr>calls = [Search \<lparr>q_index = index self, q_type = bucket model,
                                q_body = merge [(''size'', JNum 1)] spec\<rparr>],
              callback = Some [JNull, JNull], thrown = None\<rparr>"
  using assms by (simp add: findOne_def Let_def)

theorem findOne_no_match_is_null_witness:
  "es_search (client (memory_driver one_record))
     \<lparr>q_index = index (memory_driver one_record), q_type = bucket person,
      q_body = merge [(''size'', JNum 1)] [(''from'', JNum 1)]\<rparr>
     = (JNull, Some \<lparr>hits = [], total = JNum 1\<rparr>)
   \<and> \<not> truthy JNull
   \<and> hits \<lparr>hits = [], total = JNum 1\<rparr> = []
   \<and> callback (findOne (memory_driver one_record) person [(''from'', JNum 1)])
       = Some [JNull, JNull]"
proof -
  have 1: "es_search (client (memory_driver one_record))
     \<lparr>q_index = index (memory_driver one_record), q_type = bucket person,
      q_body = merge [(''size'', JNum 1)] [(''from'', JNum 1)]\<rparr>
     = (JNull, Some \<lparr>hits = [], total = JNum 1\<rparr>)"
    by (simp add: store_defs one_record_def)
  have 2: "\<not> truthy JNull" by simp
  have 3: "hits \<lparr>hits = [], total = JNum 1\<rparr> = []" by simp
  from findOne_no_match_is_null [OF 1 2 3] 1 show ?thesis by simp
qed

text \<open>
  C7. When the store answers with a record (an existing key), \<open>get\<close> delivers the stored
  source with the store's identifier under the schema's primary-key name and every other
  field as stored. When the store answers with an error, as it does for an absent key,
  the callback receives that error and no record. In no case does the callback receive
  an empty object.
\<close>

theorem get_delivers_the_record:
  assumes "es_get (client self)
             \<lparr>get_index = index self, get_type = bucket model, get_id = key\<rparr> = (err, result)"
  shows "(truthy err \<longrightarrow> callback (get self model key) = Some [err])
       \<and> (\<forall>r. \<not> truthy err \<and> result = Some r \<longrightarrow>
            (\<exists>record. callback (get self model key) = Some [JNull, JObj record]
               \<and> lookup record (prop_name (primaryKey (schema model))) = hit_id r
               \<and> (\<forall>k. k \<noteq> prop_name (primaryKey (schema model)) \<longrightarrow>
                      lookup record k = lookup (hit_source r) k \<and> has record k = has (hit_source r) k)))
       \<and> callback (get self model key) \<noteq> Some [JNull, JObj []]"
proof (intro conjI allI impI)
  assume "truthy err"
  with assms show "callback (get self model key) = Some [err]"
    by (simp add: get_def Let_def)
next
  fix r
  assume "\<not> truthy err \<and> result = Some r"
  with assms have "callback (get self model key)
      = Some [JNull, JObj (assign (prop_name (primaryKey (schema model))) (hit_id r) (hit_source r))]"
    by (simp add: get_def Let_def inject_def)
  then show "\<exists>record. callback (get self model key) = Some [JNull, JObj record]
               \<and> lookup record (prop_name (primaryKey (schema model))) = hit_id r
               \<and> (\<forall>k. k \<noteq> prop_name (primaryKey (schema model)) \<longrightarrow>
                      lookup record k = lookup (hit_source r) k \<and> has record k = has (hit_source r) k)"
    by (simp add: lookup_assign has_assign)
next
  have "assign k v obj \<noteq> []" for k v obj
    by (cases obj) (auto split: if_splits)
  with assms show "callback (get self model key) \<noteq> Some [JNull, JObj []]"
    by (auto simp: get_def Let_def inject_def split: option.splits)
qed

theorem get_delivers_the_record_witness:
  "es_get (client (memory_driver one_record))
     \<lparr>get_index = index (memory_driver one_record), get_type = bucket person,
      get_id = JStr ''a''\<rparr>
     = (JNull, Some \<lparr>hit_id = JStr ''a'', hit_source = [(''name'', JStr ''Marco'')]\<rparr>)
   \<and> callback (get (memory_driver one_record) person (JStr ''a''))
       = Some [JNull, JObj [(''name'', JStr ''Marco''), (''id'', JStr ''a'')]]
   \<and> es_get (client (memory_driver one_record))
     \<lparr>get_index = index (memory_driver one_record), get_type = bucket person,
      get_id = JStr ''b''\<rparr>
     = (JObj [(''status'', JNum 404), (''message'', JStr ''Not Found'')], None)
   \<and> callback (get (memory_driver one_record) person (JStr ''b''))
       = Some [JObj [(''status'', JNum 404), (''message'', JStr ''Not Found'')]]"
proof -
  have 1: "es_get (client (memory_driver one_record))
     \<lparr>get_index = index (memory_driver one_record), get_type = bucket person,
      get_id = JStr ''a''\<rparr>
     = (JNull, Some \<lparr>hit_id = JStr ''a'', hit_source = [(''name'', JStr ''Marco'')]\<rparr>)"
    by (simp add: store_defs one_record_def)
  have 2: "es_get (client (memory_driver one_record))
     \<lparr>get_index = index (memory_driver one_record), get_type = bucket person,
      get_id = JStr ''b''\<rparr>
     = (JObj [(''status'', JNum 404), (''message'', JStr ''Not Found'')], None)"
    by (simp add: store_defs one_record_def)
  have 3: "callback (get (memory_driver one_record) person (JStr ''a''))
       = Some [JNull, JObj [(''name'', JStr ''Marco''), (''id'', JStr ''a'')]]"
    by (simp add: get_def store_defs one_record_def)
  from get_delivers_the_record [OF 2]
  have "callback (get (memory_driver one_record) person (JStr ''b''))
       = Some [JObj [(''status'', JNum 404), (''message'', JStr ''Not Found'')]]"
    by simp
  with 1 2 3 show ?thesis by blast
qed


lemma lookup_merge_absent:
  "\<not> has src k \<Longrightarrow> lookup (merge target src) k = lookup target k"
  unfolding merge_def
proof (induction src arbitrary: target)
  case Nil
  then show ?case by simp
next
  case (Cons e src)
  obtain k' v' where e: "e = (k', v')" by (cases e)
  from Cons.prems have "k' \<noteq> k" and "\<not> has src k"
    by (auto simp: e has_def keys_def)
  then show ?case
    using Cons.IH [of "assign k' v' target"] by (simp add: e lookup_assign)
qed

text \<open>
  C8, as stated, fails. The body of the search is \<open>merge({from, size}, spec)\<close>, in which
  the properties of the spec win: a spec with a \<open>size\<close> of its own replaces the limit.
  With fifteen matching records, offset 0, limit 10 and a spec of size 20, the page holds
  fifteen records under a limit of 10.
\<close>

theorem findLimit_spec_size_counterexample:
  "length (page_docs (findLimit (memory_driver fifteen) person [(''size'', JNum 20)] 0 10)) = 15
   \<and> page_field (findLimit (memory_driver fifteen) person [(''size'', JNum 20)] 0 10) ''limit''
       = JNum 10
   \<and> calls (findLimit (memory_driver fifteen) person [(''size'', JNum 20)] 0 10)
       = [Search \<lparr>q_index = ''osmos'', q_type = ''person'',
                  q_body = [(''from'', JNum 0), (''size'', JNum 20)]\<rparr>]"
  by (simp add: findLimit_def page_docs_def page_field_def store_defs fifteen_def)

text \<open>
  C8, amended. For every successful \<open>findLimit(spec, start, limit)\<close>, the callback
  receives a page with the records the store returned, identifiers injected, the store's
  total, and the start and limit requested. The request asks the store for the window
  from \<open>start\<close> of size \<open>limit\<close> whenever the spec defines neither \<open>from\<close> nor \<open>size\<close>, and
  a store that honours the size then returns at most \<open>limit\<close> records. The witness is the
  scenario of fifteen matching records, offset 0 and limit 10: a total of 15 and 10
  records.
\<close>

theorem findLimit_page:
  assumes "es_search (client self)
             \<lparr>q_index = index self, q_type = bucket model,
              q_body = merge [(''from'', JNum start), (''size'', JNum limit)] spec\<rparr>
             = (err, Some r)"
    and "\<not> truthy err"
  shows "findLimit self model spec start limit
           = \<lparr>calls = [Search \<lparr>q_index = index self, q_type = bucket model,
                                q_body = merge [(''from'', JNum start), (''size'', JNum limit)] spec\<rparr>],
              callback = Some [JNull,
                               JObj [(''docs'', JArr (map (inject model) (hits r))),
                                     (''count'', total r),
                                     (''start'', JNum start),
                                     (''limit'', JNum limit)]],
              thrown = None\<rparr>
       \<and> (\<not> has spec ''from'' \<longrightarrow>
            lookup (merge [(''from'', JNum start), (''size'', JNum limit)] spec) ''from'' = JNum start)
       \<and> (\<not> has spec ''size'' \<longrightarrow>
            lookup (merge [(''from'', JNum start), (''size'', JNum limit)] spec) ''size'' = JNum limit
            \<and> length (window (merge [(''from'', JNum start), (''size'', JNum limit)] spec) matches)
                \<le> nat limit)"
proof (intro conjI impI)
  from assms show "findLimit self model spec start limit
           = \<lparr>calls = [Search \<lparr>q_index = index self, q_type = bucket model,
                                q_body = merge [(''from'', JNum start), (''size'', JNum limit)] spec\<rparr>],
              callback = Some [JNull,
                               JObj [(''docs'', JArr (map (inject model) (hits r))),
                                     (''count'', total r),
                                     (''start'', JNum start),
                                     (''limit'', JNum limit)]],
              thrown = None\<rparr>"
    by (simp add: findLimit_def Let_def)
next
  assume "\<not> has spec ''from''"
  then show "lookup (merge [(''from'', JNum start), (''size'', JNum limit)] spec) ''from'' = JNum start"
    by (simp add: lookup_merge_absent) (simp add: lookup_def)
next
  assume "\<not> has spec ''size''"
  then show size: "lookup (merge [(''from'', JNum start), (''size'', JNum limit)] spec) ''size''
                     = JNum limit"
    by (simp add: lookup_merge_absent) (simp add: lookup_def)
  show "length (window (merge [(''from'', JNum start), (''size'', JNum limit)] spec) matches)
          \<le> nat limit"
    by (simp add: window_def Let_def size)
qed

theorem findLimit_page_witness:
  "es_search (client (memory_driver fifteen))
     \<lparr>q_index = index (memory_driver fifteen), q_type = bucket person,
      q_body = merge [(''from'', JNum 0), (''size'', JNum 10)] match_all\<rparr>
     = (JNull, Some \<lparr>hits = first_ten, total = JNum 15\<rparr>)
   \<and> \<not> truthy JNull
   \<and> length (page_docs (findLimit (memory_driver fifteen) person match_all 0 10)) = 10
   \<and> page_field (findLimit (memory_driver fifteen) person match_all 0 10) ''count'' = JNum 15
   \<and> page_field (findLimit (memory_driver fifteen) person match_all 0 10) ''start'' = JNum 0
   \<and> page_field (findLimit (memory_driver fifteen) person match_all 0 10) ''limit'' = JNum 10"
proof -
  have 1: "es_search (client (memory_driver fifteen))
     \<lparr>q_index = index (memory_driver fifteen), q_type = bucket person,
      q_body = merge [(''from'', JNum 0), (''size'', JNum 10)] match_all\<rparr>
     = (JNull, Some \<lparr>hits = first_ten, total = JNum 15\<rparr>)"
    by (simp add: store_defs fifteen_def match_all_def first_ten_def)
  have 2: "\<not> truthy JNull" by simp
  from findLimit_page [OF 1 2]
  have "findLimit (memory_driver fifteen) person match_all 0 10
          = \<lparr>calls = [Search \<lparr>q_index = index (memory_driver fifteen), q_type = bucket person,
                q_body = merge [(''from'', JNum 0), (''size'', JNum 10)] match_all\<rparr>],
             callback = Some [JNull,
                              JObj [(''docs'', JArr (map (inject person) first_ten)),
                                    (''count'', JNum 15),
                                    (''start'', JNum 0),
                                    (''limit'', JNum 10)]],
             thrown = None\<rparr>"
    by simp
  then have "length (page_docs (findLimit (memory_driver fifteen) person match_all 0 10)) = 10"
    and "page_field (findLimit (memory_driver fifteen) person match_all 0 10) ''count'' = JNum 15"
    and "page_field (findLimit (memory_driver fifteen) person match_all 0 10) ''start'' = JNum 0"
    and "page_field (findLimit (memory_driver fifteen) person match_all 0 10) ''limit'' = JNum 10"
    by (simp_all add: page_docs_def page_field_def lookup_def first_ten_def)
  with 1 2 show ?thesis by blast
qed

end
